theory Spec2Isabelle
  imports Main "HOL-Library.Finite_Map" "HOL-Library.Word"
begin

section \<open>Control-plane server of SelfHostGameAccel\<close>

text \<open>
  A shallow embedding of the Go package \<open>protocol\<close> (the server with its handlers, and
  \<open>storage.go\<close>). Go maps are finite maps (\<open>fmap\<close>), Go's \<open>int\<close> is a 64-bit word, strings
  are byte lists. Every handler takes the server state and returns the response together
  with the new state; the handlers that persist also take and return the file system.
  What the source draws from \<open>crypto/rand\<close>, the clock and the outcome of the file
  operations are inputs of the model (record \<open>env\<close>); SHA-256 followed by base64 is the
  parameter \<open>sha\<close>. The mutex is not modelled: every handler body runs atomically.
\<close>

subsection \<open>Wire types\<close>

type_synonym Transport = string
type_synonym CipherSuite = string

abbreviation TransportUDP :: Transport where "TransportUDP \<equiv> ''udp''"
abbreviation TransportTCP :: Transport where "TransportTCP \<equiv> ''tcp''"
abbreviation CipherSuiteAES256GCM :: CipherSuite where "CipherSuiteAES256GCM \<equiv> ''aes-256-gcm''"
abbreviation CipherSuiteChaCha20Poly1305 :: CipherSuite where
  "CipherSuiteChaCha20Poly1305 \<equiv> ''chacha20-poly1305''"

record LoginRequest =
  login_Username :: string
  login_Password :: string

record RegisterRequest =
  reg_Username :: string
  reg_Password :: string
  reg_DeviceID :: string

record LoginResponse =
  login_SessionToken :: string
  login_DeviceToken :: string

record RegisterResponse =
  reg_SessionToken :: string
  reg_DeviceToken :: string

record RefreshTokenRequest =
  refresh_DeviceToken :: string

record RefreshTokenResponse =
  refresh_SessionToken :: string

record CreateRoomRequest =
  create_Name :: string
  create_PreferredTransport :: Transport
  create_MTU :: "64 word"

record CreateRoomResponse =
  created_RoomID :: string
  created_OverlaySubnet :: string
  created_PreferredTransport :: Transport
  created_MTU :: "64 word"

record JoinRoomRequest =
  join_RoomID :: string
  join_DeviceID :: string
  join_SessionToken :: string

record JoinRoomResponse =
  VirtualIP :: string
  SessionKey :: string
  joined_Transport :: Transport
  KeepaliveIntervalSec :: "64 word"
  OverlaySubnetReference :: string

record Keepalive =
  ka_Sequence :: "64 word"

record KeepaliveAck =
  ack_Sequence :: "64 word"
  ServerTimeUnix :: "64 word"
  RecommendedDelay :: "64 word"

record TunnelOffer =
  offer_RoomID :: string
  offer_Transport :: Transport
  offer_CipherSuite :: CipherSuite
  offer_EphemeralKey :: string

record TunnelAnswer =
  answer_Transport :: Transport
  answer_CipherSuite :: CipherSuite
  answer_EphemeralKey :: string

subsection \<open>Server state\<close>

record userRecord =
  Username :: string
  Salt :: string
  Hash :: string
  Device :: string

record roomRecord =
  ID :: string
  Name :: string
  PreferredTransport :: Transport
  MTU :: "64 word"
  OverlaySubnet :: string
  KeepaliveInterval :: "64 word"
  Members :: "(string, string) fmap"

text \<open>
  \<open>rooms\<close> holds pointers in the source; a room is reachable through the map only, so the
  write \<open>room.Members[k] = v\<close> is the update of the map entry.
\<close>

record Server =
  users :: "(string, userRecord) fmap"
  sessions :: "(string, string) fmap"
  deviceBags :: "(string, string) fmap"
  rooms :: "(string, roomRecord) fmap"
  persistPath :: string

record persistentState =
  Users :: "(string, userRecord) fmap"
  DeviceBags :: "(string, string) fmap"
  Rooms :: "(string, roomRecord) fmap"

text \<open>\<open>len(m)\<close> of a Go map.\<close>

definition len :: "(string, 'v) fmap \<Rightarrow> nat" where
  "len m = fcard (fmdom m)"

subsection \<open>Responses\<close>

datatype storage_error =
    ReadState | DecodeState | EncodeState | MkdirAll | CreateStateDir | WriteTempState
  | MoveStateIntoPlace

text \<open>
  The body of a response. \<open>ErrorBody\<close> carries the message of an error that the handler
  makes itself; \<open>DecodeError\<close> and \<open>PersistError\<close> stand for the bodies whose message
  ends in the text of a library or operating-system error, which is not modelled.
\<close>

datatype payload =
    NoBody
  | DecodeError
  | PersistError storage_error
  | ErrorBody string
  | NotFoundPage
  | RegisterOK RegisterResponse
  | LoginOK LoginResponse
  | RefreshOK RefreshTokenResponse
  | CreateRoomOK CreateRoomResponse
  | JoinRoomOK JoinRoomResponse
  | KeepaliveOK KeepaliveAck
  | TunnelOK TunnelAnswer

record response =
  status :: nat
  body :: payload

abbreviation StatusOK :: nat where "StatusOK \<equiv> 200"
abbreviation StatusBadRequest :: nat where "StatusBadRequest \<equiv> 400"
abbreviation StatusUnauthorized :: nat where "StatusUnauthorized \<equiv> 401"
abbreviation StatusForbidden :: nat where "StatusForbidden \<equiv> 403"
abbreviation StatusNotFound :: nat where "StatusNotFound \<equiv> 404"
abbreviation StatusMethodNotAllowed :: nat where "StatusMethodNotAllowed \<equiv> 405"
abbreviation StatusConflict :: nat where "StatusConflict \<equiv> 409"
abbreviation StatusInternalServerError :: nat where "StatusInternalServerError \<equiv> 500"

abbreviation MethodPost :: string where "MethodPost \<equiv> ''POST''"

definition writeError :: "nat \<Rightarrow> string \<Rightarrow> response" where
  "writeError st msg = \<lparr>status = st, body = ErrorBody msg\<rparr>"

definition writeJSON :: "payload \<Rightarrow> response" where
  "writeJSON b = \<lparr>status = StatusOK, body = b\<rparr>"

text \<open>The answer to a body that \<open>decodeJSON\<close> rejects, and to a method other than POST.\<close>

definition decodeFailed :: response where
  "decodeFailed = \<lparr>status = StatusBadRequest, body = DecodeError\<rparr>"

definition methodNotAllowed :: response where
  "methodNotAllowed = \<lparr>status = StatusMethodNotAllowed, body = NoBody\<rparr>"

subsection \<open>Strings: \<open>fmt.Sprintf("%d")\<close> and \<open>strings.TrimSpace\<close>\<close>

function decimal :: "nat \<Rightarrow> string" where
  "decimal n =
     (if n < 10 then [''0123456789'' ! n]
      else decimal (n div 10) @ [''0123456789'' ! (n mod 10)])"
  by pat_completeness auto
termination
  by (relation "measure id") auto

declare decimal.simps [simp del]

text \<open>
  The UTF-8 encodings of the code points for which \<open>unicode.IsSpace\<close> holds: U+0009 to
  U+000D, U+0020, U+0085, U+00A0, U+1680, U+2000 to U+200A, U+2028, U+2029, U+202F,
  U+205F and U+3000.
\<close>

definition space_encodings :: "string list" where
  "space_encodings =
     [[CHR 0x09], [CHR 0x0A], [CHR 0x0B], [CHR 0x0C], [CHR 0x0D], [CHR 0x20],
      [CHR 0xC2, CHR 0x85], [CHR 0xC2, CHR 0xA0],
      [CHR 0xE1, CHR 0x9A, CHR 0x80],
      [CHR 0xE2, CHR 0x80, CHR 0x80], [CHR 0xE2, CHR 0x80, CHR 0x81],
      [CHR 0xE2, CHR 0x80, CHR 0x82], [CHR 0xE2, CHR 0x80, CHR 0x83],
      [CHR 0xE2, CHR 0x80, CHR 0x84], [CHR 0xE2, CHR 0x80, CHR 0x85],
      [CHR 0xE2, CHR 0x80, CHR 0x86], [CHR 0xE2, CHR 0x80, CHR 0x87],
      [CHR 0xE2, CHR 0x80, CHR 0x88], [CHR 0xE2, CHR 0x80, CHR 0x89],
      [CHR 0xE2, CHR 0x80, CHR 0x8A],
      [CHR 0xE2, CHR 0x80, CHR 0xA8], [CHR 0xE2, CHR 0x80, CHR 0xA9],
      [CHR 0xE2, CHR 0x80, CHR 0xAF], [CHR 0xE2, CHR 0x81, CHR 0x9F],
      [CHR 0xE3, CHR 0x80, CHR 0x80]]"

text \<open>
  Removes the white-space runes at the front of \<open>s\<close>, one encoding at a time. A string
  starts with a white-space rune exactly when it starts with one of the encodings: each
  of them is a complete UTF-8 sequence.
\<close>

function trimFront :: "string list \<Rightarrow> string \<Rightarrow> string" where
  "trimFront encs s =
     (case List.find (\<lambda>e. e \<noteq> [] \<and> take (length e) s = e) encs of
        None \<Rightarrow> s
      | Some e \<Rightarrow> trimFront encs (drop (length e) s))"
  by pat_completeness auto
termination
proof (relation "measure (\<lambda>(encs, s). length s)")
  show "wf (measure (\<lambda>(encs, s). length s))" by simp
next
  fix encs :: "string list" and s e :: string
  assume "List.find (\<lambda>e. e \<noteq> [] \<and> take (length e) s = e) encs = Some e"
  then have e: "e \<noteq> []" "take (length e) s = e"
    by (auto simp: find_Some_iff)
  have "length (take (length e) s) = min (length e) (length s)"
    by simp
  with e(2) have "length e \<le> length s"
    by simp
  with e(1) show "((encs, drop (length e) s), (encs, s)) \<in> measure (\<lambda>(encs, s). length s)"
    by (cases e) auto
qed

declare trimFront.simps [simp del]

text \<open>
  \<open>strings.TrimSpace\<close>: the white space at both ends is removed; the end is trimmed on
  the reversed string with the reversed encodings.
\<close>

definition TrimSpace :: "string \<Rightarrow> string" where
  "TrimSpace s =
     rev (trimFront (map rev space_encodings) (rev (trimFront space_encodings s)))"

text \<open>\<open>strings.Contains(s, " ")\<close>.\<close>

definition ContainsSpace :: "string \<Rightarrow> bool" where
  "ContainsSpace s = (CHR 0x20 \<in> set s)"

subsection \<open>Inputs from outside the program\<close>

text \<open>
  What one request takes from outside: the salt and the tokens that \<open>randomSalt\<close> and
  \<open>newToken\<close> return (one field for each call site), the clock, and which step of the
  save fails, if any.
\<close>

datatype io_fault = NoFault | EncodeFails | MkdirFails | WriteFails | RenameFails

record env =
  rand_salt :: string
  tok_deviceID :: string
  tok_session :: string
  tok_device :: string
  tok_sessionKey :: string
  now_unix :: "64 word"
  fault :: io_fault

text \<open>\<open>hashPassword\<close>; \<open>sha\<close> is SHA-256 followed by the base64 encoding.\<close>

definition hashPassword :: "(string \<Rightarrow> string) \<Rightarrow> string \<Rightarrow> string \<Rightarrow> string" where
  "hashPassword sha password salt = sha (salt @ '':'' @ password)"

subsection \<open>Persistence (\<open>storage.go\<close>)\<close>

text \<open>
  A file holds a JSON document of the three collections, each of which may be absent or
  \<open>null\<close>, or bytes that are no such document, or it cannot be read. The encoding of a
  state and its decoding are the library's (\<open>encoding/json\<close>, on exported fields of
  strings, integers and string-keyed maps); the model keeps the document itself. Every
  room of a document has its member map, as every room that the server writes has.
\<close>

record stateDoc =
  doc_users :: "(string, userRecord) fmap option"
  doc_device_bags :: "(string, string) fmap option"
  doc_rooms :: "(string, roomRecord) fmap option"

datatype fileData = Json stateDoc | Malformed | Unreadable

type_synonym fsys = "string \<rightharpoonup> fileData"

definition encodeState :: "persistentState \<Rightarrow> fileData" where
  "encodeState st =
     Json \<lparr>doc_users = Some (Users st), doc_device_bags = Some (DeviceBags st),
           doc_rooms = Some (Rooms st)\<rparr>"

definition loadState :: "fsys \<Rightarrow> string \<Rightarrow> storage_error + persistentState" where
  "loadState fs path =
     (case fs path of
        None \<Rightarrow> Inr \<lparr>Users = fmempty, DeviceBags = fmempty, Rooms = fmempty\<rparr>
      | Some Unreadable \<Rightarrow> Inl ReadState
      | Some Malformed \<Rightarrow> Inl DecodeState
      | Some (Json d) \<Rightarrow>
          Inr \<lparr>Users = (case doc_users d of None \<Rightarrow> fmempty | Some m \<Rightarrow> m),
               DeviceBags = (case doc_device_bags d of None \<Rightarrow> fmempty | Some m \<Rightarrow> m),
               Rooms = (case doc_rooms d of None \<Rightarrow> fmempty | Some m \<Rightarrow> m)\<rparr>)"

text \<open>
  \<open>saveState\<close> encodes the state, writes the sibling file \<open>path.tmp\<close> and renames it
  over \<open>path\<close>. A failed step returns its error and leaves \<open>path\<close> as it was.
\<close>

definition saveState :: "fsys \<Rightarrow> io_fault \<Rightarrow> string \<Rightarrow> persistentState \<Rightarrow> storage_error option \<times> fsys" where
  "saveState fs flt path st =
     (let tmp = path @ ''.tmp''; encoded = encodeState st
      in if flt = EncodeFails then (Some EncodeState, fs)
         else if flt = MkdirFails then (Some CreateStateDir, fs)
         else if flt = WriteFails then (Some WriteTempState, fs)
         else if flt = RenameFails then (Some MoveStateIntoPlace, fs(tmp \<mapsto> encoded))
         else (None, (fs(tmp := None))(path \<mapsto> encoded)))"

subsection \<open>The server (\<open>server.go\<close>)\<close>

definition seedDemoUser :: "(string \<Rightarrow> string) \<Rightarrow> string \<Rightarrow> Server \<Rightarrow> Server" where
  "seedDemoUser sha salt s =
     (let hash = hashPassword sha ''password123'' salt
      in s\<lparr>users := fmupd ''gamer''
                \<lparr>Username = ''gamer'', Salt = salt, Hash = hash, Device = ''demo-device''\<rparr> (users s),
            deviceBags := fmupd ''demo-device'' ''gamer'' (deviceBags s)\<rparr>)"

text \<open>
  \<open>loadState\<close> never returns a nil map, so both nil tests of \<open>loadFromDisk\<close> succeed.
\<close>

definition loadFromDisk :: "(string \<Rightarrow> string) \<Rightarrow> string \<Rightarrow> fsys \<Rightarrow> Server \<Rightarrow> storage_error + Server" where
  "loadFromDisk sha salt fs s =
     (case loadState fs (persistPath s) of
        Inl err \<Rightarrow> Inl err
      | Inr state \<Rightarrow>
          if len (Users state) = 0 then Inr (seedDemoUser sha salt s)
          else Inr (s\<lparr>users := Users state, deviceBags := DeviceBags state,
                      rooms := Rooms state\<rparr>))"

definition NewServerWithStorage :: "(string \<Rightarrow> string) \<Rightarrow> string \<Rightarrow> fsys \<Rightarrow> string \<Rightarrow> storage_error + Server" where
  "NewServerWithStorage sha salt fs path =
     (let s = \<lparr>users = fmempty, sessions = fmempty, deviceBags = fmempty, rooms = fmempty,
               persistPath = path\<rparr>
      in if path \<noteq> [] then loadFromDisk sha salt fs s
         else Inr (seedDemoUser sha salt s))"

text \<open>
  \<open>NewServer\<close> is \<open>NewServerWithStorage("")\<close>, which reads no file and cannot fail
  (lemma \<open>NewServer_eq\<close> below).
\<close>

definition NewServer :: "(string \<Rightarrow> string) \<Rightarrow> string \<Rightarrow> Server" where
  "NewServer sha salt =
     seedDemoUser sha salt
       \<lparr>users = fmempty, sessions = fmempty, deviceBags = fmempty, rooms = fmempty,
        persistPath = []\<rparr>"

text \<open>The value \<open>persistentState{Users: s.users, DeviceBags: s.deviceBags, Rooms: s.rooms}\<close>.\<close>

definition snapshot :: "Server \<Rightarrow> persistentState" where
  "snapshot s = \<lparr>Users = users s, DeviceBags = deviceBags s, Rooms = rooms s\<rparr>"

definition persistLocked :: "Server \<Rightarrow> fsys \<Rightarrow> io_fault \<Rightarrow> storage_error option \<times> fsys" where
  "persistLocked s fs flt =
     (if persistPath s = [] then (None, fs)
      else if flt = MkdirFails then (Some MkdirAll, fs)
      else saveState fs flt (persistPath s) (snapshot s))"

text \<open>\<open>writeError(w, http.StatusInternalServerError, fmt.Errorf("persist: %w", err))\<close>.\<close>

definition persistFailed :: "storage_error \<Rightarrow> response" where
  "persistFailed err = \<lparr>status = StatusInternalServerError, body = PersistError err\<rparr>"

definition handleRegister ::
  "(string \<Rightarrow> string) \<Rightarrow> env \<Rightarrow> fsys \<Rightarrow> Server \<Rightarrow> string \<Rightarrow> RegisterRequest option
    \<Rightarrow> response \<times> Server \<times> fsys" where
  "handleRegister sha e fs s meth decoded =
     (if meth \<noteq> MethodPost then (methodNotAllowed, s, fs)
      else case decoded of
        None \<Rightarrow> (decodeFailed, s, fs)
      | Some req \<Rightarrow>
          if TrimSpace (reg_Username req) = [] \<or> TrimSpace (reg_Password req) = []
          then (writeError StatusBadRequest ''username and password required'', s, fs)
          else
            let deviceID = (if reg_DeviceID req = [] then ''device-'' @ take 6 (tok_deviceID e)
                            else reg_DeviceID req)
            in if ContainsSpace (reg_Username req)
               then (writeError StatusBadRequest ''username may not contain spaces'', s, fs)
               else if fmlookup (users s) (reg_Username req) \<noteq> None
               then (writeError StatusConflict ''user already exists'', s, fs)
               else
                 let salt = rand_salt e;
                     record = \<lparr>Username = reg_Username req, Salt = salt,
                               Hash = hashPassword sha (reg_Password req) salt,
                               Device = deviceID\<rparr>;
                     s1 = s\<lparr>users := fmupd (reg_Username req) record (users s)\<rparr>;
                     s2 = s1\<lparr>deviceBags := fmupd deviceID (reg_Username req) (deviceBags s1)\<rparr>;
                     sessionToken = tok_session e;
                     deviceToken = tok_device e;
                     s3 = s2\<lparr>sessions := fmupd sessionToken (reg_Username req) (sessions s2)\<rparr>;
                     s4 = s3\<lparr>deviceBags := fmupd deviceToken (reg_Username req) (deviceBags s3)\<rparr>
                 in case persistLocked s4 fs (fault e) of
                      (Some err, fs') \<Rightarrow> (persistFailed err, s4, fs')
                    | (None, fs') \<Rightarrow>
                        (writeJSON (RegisterOK \<lparr>reg_SessionToken = sessionToken,
                                                 reg_DeviceToken = deviceToken\<rparr>), s4, fs'))"

definition handleLogin ::
  "(string \<Rightarrow> string) \<Rightarrow> env \<Rightarrow> fsys \<Rightarrow> Server \<Rightarrow> string \<Rightarrow> LoginRequest option
    \<Rightarrow> response \<times> Server \<times> fsys" where
  "handleLogin sha e fs s meth decoded =
     (if meth \<noteq> MethodPost then (methodNotAllowed, s, fs)
      else case decoded of
        None \<Rightarrow> (decodeFailed, s, fs)
      | Some req \<Rightarrow>
          (case fmlookup (users s) (login_Username req) of
             None \<Rightarrow> (writeError StatusUnauthorized ''invalid credentials'', s, fs)
           | Some record \<Rightarrow>
               if Hash record \<noteq> hashPassword sha (login_Password req) (Salt record)
               then (writeError StatusUnauthorized ''invalid credentials'', s, fs)
               else
                 let sessionToken = tok_session e;
                     deviceToken = tok_device e;
                     s1 = s\<lparr>sessions := fmupd sessionToken (login_Username req) (sessions s)\<rparr>;
                     s2 = s1\<lparr>deviceBags := fmupd deviceToken (login_Username req) (deviceBags s1)\<rparr>
                 in case persistLocked s2 fs (fault e) of
                      (Some err, fs') \<Rightarrow> (persistFailed err, s2, fs')
                    | (None, fs') \<Rightarrow>
                        (writeJSON (LoginOK \<lparr>login_SessionToken = sessionToken,
                                              login_DeviceToken = deviceToken\<rparr>), s2, fs')))"

definition handleRefresh ::
  "env \<Rightarrow> Server \<Rightarrow> string \<Rightarrow> RefreshTokenRequest option \<Rightarrow> response \<times> Server" where
  "handleRefresh e s meth decoded =
     (if meth \<noteq> MethodPost then (methodNotAllowed, s)
      else case decoded of
        None \<Rightarrow> (decodeFailed, s)
      | Some req \<Rightarrow>
          (case fmlookup (deviceBags s) (refresh_DeviceToken req) of
             None \<Rightarrow> (writeError StatusUnauthorized ''device token invalid'', s)
           | Some username \<Rightarrow>
               let sessionToken = tok_session e;
                   s1 = s\<lparr>sessions := fmupd sessionToken username (sessions s)\<rparr>
               in (writeJSON (RefreshOK \<lparr>refresh_SessionToken = sessionToken\<rparr>), s1)))"

definition handleCreateRoom ::
  "env \<Rightarrow> fsys \<Rightarrow> Server \<Rightarrow> string \<Rightarrow> CreateRoomRequest option \<Rightarrow> response \<times> Server \<times> fsys" where
  "handleCreateRoom e fs s meth decoded =
     (if meth \<noteq> MethodPost then (methodNotAllowed, s, fs)
      else case decoded of
        None \<Rightarrow> (decodeFailed, s, fs)
      | Some req \<Rightarrow>
          let roomID = ''room-'' @ decimal (len (rooms s) + 1);
              subnet = ''10.0.'' @ decimal (len (rooms s) + 1) @ ''.0/24'';
              mtu = (if create_MTU req = 0 then 1400 else create_MTU req);
              transport = (if create_PreferredTransport req = [] then TransportUDP
                           else create_PreferredTransport req);
              rec = \<lparr>ID = roomID, Name = create_Name req, PreferredTransport = transport,
                     MTU = mtu, OverlaySubnet = subnet, KeepaliveInterval = 15,
                     Members = fmempty\<rparr>;
              s1 = s\<lparr>rooms := fmupd roomID rec (rooms s)\<rparr>
          in case persistLocked s1 fs (fault e) of
               (Some err, fs') \<Rightarrow> (persistFailed err, s1, fs')
             | (None, fs') \<Rightarrow>
                 (writeJSON (CreateRoomOK \<lparr>created_RoomID = roomID,
                                            created_OverlaySubnet = subnet,
                                            created_PreferredTransport = PreferredTransport rec,
                                            created_MTU = MTU rec\<rparr>), s1, fs'))"

definition handleJoinRoom ::
  "env \<Rightarrow> fsys \<Rightarrow> Server \<Rightarrow> string \<Rightarrow> JoinRoomRequest option \<Rightarrow> response \<times> Server \<times> fsys" where
  "handleJoinRoom e fs s meth decoded =
     (if meth \<noteq> MethodPost then (methodNotAllowed, s, fs)
      else case decoded of
        None \<Rightarrow> (decodeFailed, s, fs)
      | Some req \<Rightarrow>
          (case fmlookup (sessions s) (join_SessionToken req) of
             None \<Rightarrow> (writeError StatusUnauthorized ''session invalid'', s, fs)
           | Some username \<Rightarrow>
               (case fmlookup (rooms s) (join_RoomID req) of
                  None \<Rightarrow> (writeError StatusNotFound ''room not found'', s, fs)
                | Some room \<Rightarrow>
                    let virtualIP = ''10.0.'' @ decimal (len (Members room) + 1) @ ''.''
                                      @ decimal (len (Members room) + 2);
                        sessionKey = tok_sessionKey e;
                        room1 = room\<lparr>Members := fmupd (join_DeviceID req) username (Members room)\<rparr>;
                        s1 = s\<lparr>rooms := fmupd (join_RoomID req) room1 (rooms s)\<rparr>
                    in case persistLocked s1 fs (fault e) of
                         (Some err, fs') \<Rightarrow> (persistFailed err, s1, fs')
                       | (None, fs') \<Rightarrow>
                           (writeJSON (JoinRoomOK
                              \<lparr>VirtualIP = virtualIP, SessionKey = sessionKey,
                               joined_Transport = PreferredTransport room1,
                               KeepaliveIntervalSec = KeepaliveInterval room1,
                               OverlaySubnetReference = OverlaySubnet room1\<rparr>), s1, fs'))))"

definition handleKeepalive :: "env \<Rightarrow> string \<Rightarrow> Keepalive option \<Rightarrow> response" where
  "handleKeepalive e meth decoded =
     (if meth \<noteq> MethodPost then methodNotAllowed
      else case decoded of
        None \<Rightarrow> decodeFailed
      | Some req \<Rightarrow>
          writeJSON (KeepaliveOK \<lparr>ack_Sequence = ka_Sequence req, ServerTimeUnix = now_unix e,
                                  RecommendedDelay = 5000\<rparr>))"

definition handleTunnelBootstrap :: "Server \<Rightarrow> string \<Rightarrow> TunnelOffer option \<Rightarrow> response" where
  "handleTunnelBootstrap s meth decoded =
     (if meth \<noteq> MethodPost then methodNotAllowed
      else case decoded of
        None \<Rightarrow> decodeFailed
      | Some req \<Rightarrow>
          (case fmlookup (rooms s) (offer_RoomID req) of
             None \<Rightarrow> writeError StatusNotFound ''room not found''
           | Some room \<Rightarrow>
               let transport = (if offer_Transport req = [] then PreferredTransport room
                                else offer_Transport req);
                   cipher = (if offer_CipherSuite req = [] then CipherSuiteAES256GCM
                             else offer_CipherSuite req)
               in writeJSON (TunnelOK \<lparr>answer_Transport = transport, answer_CipherSuite = cipher,
                                        answer_EphemeralKey = offer_EphemeralKey req\<rparr>)))"

subsection \<open>Routing\<close>

datatype handler =
    HRegister | HLogin | HRefresh | HCreateRoom | HJoinRoom | HKeepalive | HTunnelBootstrap

definition registerRoutes :: "(string \<times> handler) list" where
  "registerRoutes =
     [(''/auth/register'', HRegister),
      (''/auth/login'', HLogin),
      (''/auth/refresh'', HRefresh),
      (''/rooms'', HCreateRoom),
      (''/rooms/join'', HJoinRoom),
      (''/rooms/keepalive'', HKeepalive),
      (''/tunnel/bootstrap'', HTunnelBootstrap)]"

text \<open>
  The request body as each handler's \<open>decodeJSON\<close> reads it: the decoder ignores the
  fields its target type does not have, so one body may decode at several types.
\<close>

record http_body =
  as_RegisterRequest :: "RegisterRequest option"
  as_LoginRequest :: "LoginRequest option"
  as_RefreshTokenRequest :: "RefreshTokenRequest option"
  as_CreateRoomRequest :: "CreateRoomRequest option"
  as_JoinRoomRequest :: "JoinRoomRequest option"
  as_Keepalive :: "Keepalive option"
  as_TunnelOffer :: "TunnelOffer option"

text \<open>
  \<open>ServeHTTP\<close> for a path in canonical form: none of the patterns ends in a slash, so a
  pattern matches its own path only, and the multiplexer answers every other path with
  404.
\<close>

definition ServeHTTP ::
  "(string \<Rightarrow> string) \<Rightarrow> env \<Rightarrow> fsys \<Rightarrow> Server \<Rightarrow> string \<Rightarrow> string \<Rightarrow> http_body
    \<Rightarrow> response \<times> Server \<times> fsys" where
  "ServeHTTP sha e fs s path meth b =
     (case map_of registerRoutes path of
        None \<Rightarrow> (\<lparr>status = StatusNotFound, body = NotFoundPage\<rparr>, s, fs)
      | Some HRegister \<Rightarrow> handleRegister sha e fs s meth (as_RegisterRequest b)
      | Some HLogin \<Rightarrow> handleLogin sha e fs s meth (as_LoginRequest b)
      | Some HRefresh \<Rightarrow>
          (case handleRefresh e s meth (as_RefreshTokenRequest b) of (r, s') \<Rightarrow> (r, s', fs))
      | Some HCreateRoom \<Rightarrow> handleCreateRoom e fs s meth (as_CreateRoomRequest b)
      | Some HJoinRoom \<Rightarrow> handleJoinRoom e fs s meth (as_JoinRoomRequest b)
      | Some HKeepalive \<Rightarrow> (handleKeepalive e meth (as_Keepalive b), s, fs)
      | Some HTunnelBootstrap \<Rightarrow> (handleTunnelBootstrap s meth (as_TunnelOffer b), s, fs))"

subsection \<open>Runs of the server\<close>

text \<open>
  The states of a running server: the state after start-up, and every state that a
  request leaves behind. The file system and the inputs of each request are arbitrary.
\<close>

inductive reachable :: "(string \<Rightarrow> string) \<Rightarrow> Server \<Rightarrow> bool" for sha :: "string \<Rightarrow> string" where
  started: "NewServerWithStorage sha salt fs path = Inr s \<Longrightarrow> reachable sha s"
| served: "reachable sha s \<Longrightarrow> ServeHTTP sha e fs s path meth b = (r, s', fs') \<Longrightarrow> reachable sha s'"

subsection \<open>Concrete inputs for the examples\<close>

text \<open>
  The values of SHA-256 (rendered in base64) at the strings that the examples hash; no
  example hashes another string. The salts are the base64 renderings of eight bytes, the
  tokens the hexadecimal renderings of sixteen, as \<open>randomSalt\<close> and \<open>newToken\<close> produce
  them.
\<close>

definition example_sha :: "string \<Rightarrow> string" where
  "example_sha x =
     (if x = ''AAECAwQFBgc=:password123'' then ''z4G/bg7FCFYfRrLSgfqJrS/1dAJb0rreOwdWTqV0f28=''
      else if x = ''CAkKCwwNDg8=:warp123'' then ''nUuloEt5FCbLoIt2UoAEf/6jCe5g57iPGz4EQFQgqD4=''
      else if x = ''CAkKCwwNDg8=:pw'' then ''T4Zk1cCqeXty7gzHLJig6hxNBzLO7uOdrzxV8WH6qD4=''
      else if x = ''EBESExQVFhc=:pw'' then ''Abhz4QAdfGLtJ28cN1VmoME0XuLkknY3+biECqpCrVw=''
      else if x = ''CAkKCwwNDg8=:secret'' then ''uTp9t/IIue+kxgDk8Vis1iWpQ9WEFsTiB310A39Cs/w=''
      else [])"

definition no_files :: fsys where
  "no_files = Map.empty"

definition env1 :: env where
  "env1 = \<lparr>rand_salt = ''CAkKCwwNDg8='',
            tok_deviceID = ''7c9e6679f4a1b2c3d4e5f60718293a4b'',
            tok_session = ''a0a1a2a3a4a5a6a7a8a9aaabacadaeaf'',
            tok_device = ''b0b1b2b3b4b5b6b7b8b9babbbcbdbebf'',
            tok_sessionKey = ''c0c1c2c3c4c5c6c7c8c9cacbcccdcecf'',
            now_unix = 1793577600, fault = NoFault\<rparr>"

definition env2 :: env where
  "env2 = \<lparr>rand_salt = ''EBESExQVFhc='',
            tok_deviceID = ''19f2e3d4c5b6a7988796a5b4c3d2e1f0'',
            tok_session = ''d0d1d2d3d4d5d6d7d8d9dadbdcdddedf'',
            tok_device = ''e0e1e2e3e4e5e6e7e8e9eaebecedeeef'',
            tok_sessionKey = ''f0f1f2f3f4f5f6f7f8f9fafbfcfdfeff'',
            now_unix = 1793577601, fault = NoFault\<rparr>"

definition env3 :: env where
  "env3 = \<lparr>rand_salt = ''GBkaGxwdHh8='',
            tok_deviceID = ''2a3b4c5d6e7f8091a2b3c4d5e6f70819'',
            tok_session = ''101112131415161718191a1b1c1d1e1f'',
            tok_device = ''202122232425262728292a2b2c2d2e2f'',
            tok_sessionKey = ''303132333435363738393a3b3c3d3e3f'',
            now_unix = 1793577602, fault = NoFault\<rparr>"

text \<open>A server started without a persistence path, and one started on a path with no file.\<close>

definition demo_server :: Server where
  "demo_server = NewServer example_sha ''AAECAwQFBgc=''"

definition stored_server :: Server where
  "stored_server =
     seedDemoUser example_sha ''AAECAwQFBgc=''
       \<lparr>users = fmempty, sessions = fmempty, deviceBags = fmempty, rooms = fmempty,
        persistPath = ''data/state.json''\<rparr>"

definition empty_body :: http_body where
  "empty_body =
     \<lparr>as_RegisterRequest = None, as_LoginRequest = None, as_RefreshTokenRequest = None,
      as_CreateRoomRequest = None, as_JoinRoomRequest = None, as_Keepalive = None,
      as_TunnelOffer = None\<rparr>"

text \<open>The runs that the examples below evaluate.\<close>

definition tab_name_registered :: "response \<times> Server \<times> fsys" where
  "tab_name_registered =
     handleRegister example_sha env1 no_files demo_server MethodPost
       (Some \<lparr>reg_Username = [CHR ''a'', CHR 0x09, CHR ''b''], reg_Password = ''pw'',
              reg_DeviceID = ''device-1''\<rparr>)"

definition stranger_joins_missing_room :: "response \<times> Server \<times> fsys" where
  "stranger_joins_missing_room =
     handleJoinRoom env1 no_files demo_server MethodPost
       (Some \<lparr>join_RoomID = ''room-7'', join_DeviceID = ''device-1'',
              join_SessionToken = ''a0a1a2a3a4a5a6a7a8a9aaabacadaeaf''\<rparr>)"

definition first_refresh :: "response \<times> Server \<times> fsys" where
  "first_refresh =
     ServeHTTP example_sha env1 no_files stored_server ''/auth/refresh'' MethodPost
       (empty_body\<lparr>as_RefreshTokenRequest := Some \<lparr>refresh_DeviceToken = ''demo-device''\<rparr>\<rparr>)"

definition alice_registered :: "response \<times> Server \<times> fsys" where
  "alice_registered =
     handleRegister example_sha env1 no_files demo_server MethodPost
       (Some \<lparr>reg_Username = ''alice'', reg_Password = ''pw'', reg_DeviceID = ''device-1''\<rparr>)"



definition nova_registered :: "response \<times> Server \<times> fsys" where
  "nova_registered =
     ServeHTTP example_sha env1 no_files stored_server ''/auth/register'' MethodPost
       (empty_body\<lparr>as_RegisterRequest :=
          Some \<lparr>reg_Username = ''nova'', reg_Password = ''warp123'',
                reg_DeviceID = ''rig-device''\<rparr>\<rparr>)"

definition alpha_created :: "response \<times> Server \<times> fsys" where
  "alpha_created =
     ServeHTTP example_sha env2 (snd (snd nova_registered)) (fst (snd nova_registered))
       ''/rooms'' MethodPost
       (empty_body\<lparr>as_CreateRoomRequest :=
          Some \<lparr>create_Name = ''alpha'', create_PreferredTransport = [], create_MTU = 0\<rparr>\<rparr>)"

definition alice_again_without_password :: "response \<times> Server \<times> fsys" where
  "alice_again_without_password =
     handleRegister example_sha env2 (snd (snd alice_registered)) (fst (snd alice_registered))
       MethodPost
       (Some \<lparr>reg_Username = ''alice'', reg_Password = [], reg_DeviceID = ''device-1''\<rparr>)"

definition leader_registered :: "response \<times> Server \<times> fsys" where
  "leader_registered =
     handleRegister example_sha env1 no_files stored_server MethodPost
       (Some \<lparr>reg_Username = ''leader'', reg_Password = ''secret'', reg_DeviceID = []\<rparr>)"

section \<open>Basic facts\<close>

text \<open>The definitions that the evaluation of a concrete run unfolds.\<close>

lemmas eval_defs = ServeHTTP_def registerRoutes_def handleRegister_def handleCreateRoom_def
  handleJoinRoom_def handleRefresh_def handleLogin_def
  NewServer_def NewServerWithStorage_def loadFromDisk_def loadState_def
  seedDemoUser_def persistLocked_def saveState_def Let_def TrimSpace_def trimFront.simps
  space_encodings_def ContainsSpace_def writeJSON_def writeError_def decimal.simps
  hashPassword_def example_sha_def env1_def env2_def env3_def demo_server_def stored_server_def
  no_files_def empty_body_def persistFailed_def encodeState_def snapshot_def

lemma len_fmempty [simp]: "len fmempty = 0"
  by (simp add: len_def)

lemma len_fmupd:
  "len (fmupd k v m) = (if fmlookup m k = None then Suc (len m) else len m)"
  by (auto simp: len_def fcard_finsert_if fmdom_notI fmdom_notD finsert_absorb dest: fmdomI)

lemma decimal_examples:
  "decimal 0 = ''0''" "decimal 7 = ''7''" "decimal 42 = ''42''" "decimal 1400 = ''1400''"
  by (simp_all add: decimal.simps)

lemma NewServer_eq: "NewServerWithStorage sha salt fs [] = Inr (NewServer sha salt)"
  by (simp add: NewServerWithStorage_def NewServer_def)

lemma TrimSpace_Nil: "TrimSpace [] = []"
  by (simp add: TrimSpace_def trimFront.simps space_encodings_def)

lemma persistLocked_saved:
  assumes "persistLocked s fs flt = (None, fs')" and "persistPath s \<noteq> []"
  shows "fs' (persistPath s) = Some (encodeState (snapshot s))"
  using assms by (auto simp: persistLocked_def saveState_def Let_def split: if_splits)

lemma persistLocked_NoFault:
  "persistLocked s fs NoFault =
     (None, if persistPath s = [] then fs
            else (fs(persistPath s @ ''.tmp'' := None))(persistPath s \<mapsto> encodeState (snapshot s)))"
  by (simp add: persistLocked_def saveState_def Let_def)

subsection \<open>Registration\<close>

lemma handleRegister_rejected:
  assumes "TrimSpace (reg_Username req) = [] \<or> TrimSpace (reg_Password req) = []
           \<or> ContainsSpace (reg_Username req)"
  shows "\<exists>msg. handleRegister sha e fs s MethodPost (Some req) =
           (writeError StatusBadRequest msg, s, fs)"
  using assms by (auto simp: handleRegister_def Let_def)

lemma handleRegister_blank:
  assumes "TrimSpace (reg_Username req) = [] \<or> TrimSpace (reg_Password req) = []"
  shows "handleRegister sha e fs s MethodPost (Some req) =
           (writeError StatusBadRequest ''username and password required'', s, fs)"
  using assms by (auto simp: handleRegister_def)

lemma handleRegister_conflict:
  assumes "TrimSpace (reg_Username req) \<noteq> []" "TrimSpace (reg_Password req) \<noteq> []"
    "\<not> ContainsSpace (reg_Username req)" "fmlookup (users s) (reg_Username req) \<noteq> None"
  shows "handleRegister sha e fs s MethodPost (Some req) =
           (writeError StatusConflict ''user already exists'', s, fs)"
  using assms by (auto simp: handleRegister_def Let_def)

text \<open>A registration answered with 200 passed every check, and this is the state it left.\<close>

lemma handleRegister_ok:
  assumes "handleRegister sha e fs s MethodPost (Some req) = (r, s', fs')" "status r = StatusOK"
  shows "TrimSpace (reg_Username req) \<noteq> []" "TrimSpace (reg_Password req) \<noteq> []"
    "\<not> ContainsSpace (reg_Username req)" "fmlookup (users s) (reg_Username req) = None"
    "r = writeJSON (RegisterOK \<lparr>reg_SessionToken = tok_session e, reg_DeviceToken = tok_device e\<rparr>)"
    "s' = s\<lparr>users := fmupd (reg_Username req)
                \<lparr>Username = reg_Username req, Salt = rand_salt e,
                 Hash = hashPassword sha (reg_Password req) (rand_salt e),
                 Device = (if reg_DeviceID req = [] then ''device-'' @ take 6 (tok_deviceID e)
                           else reg_DeviceID req)\<rparr> (users s),
              sessions := fmupd (tok_session e) (reg_Username req) (sessions s),
              deviceBags := fmupd (tok_device e) (reg_Username req)
                 (fmupd (if reg_DeviceID req = [] then ''device-'' @ take 6 (tok_deviceID e)
                         else reg_DeviceID req) (reg_Username req) (deviceBags s))\<rparr>"
    "persistLocked s' fs (fault e) = (None, fs')"
  using assms
  by (auto simp: handleRegister_def Let_def writeError_def writeJSON_def persistFailed_def
      split: if_splits option.splits prod.splits)

section \<open>The example runs, evaluated\<close>

text \<open>
  Two servers are used: \<open>demo_server\<close>, started without a path, and \<open>stored_server\<close>,
  started on the path \<open>data/state.json\<close> with no file there.
\<close>

lemma nova_run:
  "ServeHTTP example_sha env1 no_files stored_server ''/auth/register'' MethodPost
       (empty_body\<lparr>as_RegisterRequest :=
          Some \<lparr>reg_Username = ''nova'', reg_Password = ''warp123'',
                reg_DeviceID = ''rig-device''\<rparr>\<rparr>) =
     (fst nova_registered, fst (snd nova_registered), snd (snd nova_registered))"
  by (simp add: nova_registered_def)

lemma nova_state:
  "fst (snd nova_registered) =
     \<lparr>users = fmupd ''nova''
          \<lparr>Username = ''nova'', Salt = ''CAkKCwwNDg8='',
           Hash = ''nUuloEt5FCbLoIt2UoAEf/6jCe5g57iPGz4EQFQgqD4='', Device = ''rig-device''\<rparr>
          (fmupd ''gamer''
             \<lparr>Username = ''gamer'', Salt = ''AAECAwQFBgc='',
              Hash = ''z4G/bg7FCFYfRrLSgfqJrS/1dAJb0rreOwdWTqV0f28='', Device = ''demo-device''\<rparr>
             fmempty),
      sessions = fmupd ''a0a1a2a3a4a5a6a7a8a9aaabacadaeaf'' ''nova'' fmempty,
      deviceBags = fmupd ''b0b1b2b3b4b5b6b7b8b9babbbcbdbebf'' ''nova''
          (fmupd ''rig-device'' ''nova'' (fmupd ''demo-device'' ''gamer'' fmempty)),
      rooms = fmempty, persistPath = ''data/state.json''\<rparr>"
  by (simp add: nova_registered_def eval_defs)

lemma nova_status: "status (fst nova_registered) = StatusOK"
  by (simp add: nova_registered_def eval_defs)

lemma stored_server_started:
  "NewServerWithStorage example_sha ''AAECAwQFBgc='' no_files ''data/state.json'' = Inr stored_server"
  by (simp add: eval_defs)


lemma alice_state:
  "fst (snd alice_registered) =
     \<lparr>users = fmupd ''alice''
          \<lparr>Username = ''alice'', Salt = ''CAkKCwwNDg8='',
           Hash = ''T4Zk1cCqeXty7gzHLJig6hxNBzLO7uOdrzxV8WH6qD4='', Device = ''device-1''\<rparr>
          (fmupd ''gamer''
             \<lparr>Username = ''gamer'', Salt = ''AAECAwQFBgc='',
              Hash = ''z4G/bg7FCFYfRrLSgfqJrS/1dAJb0rreOwdWTqV0f28='', Device = ''demo-device''\<rparr>
             fmempty),
      sessions = fmupd ''a0a1a2a3a4a5a6a7a8a9aaabacadaeaf'' ''alice'' fmempty,
      deviceBags = fmupd ''b0b1b2b3b4b5b6b7b8b9babbbcbdbebf'' ''alice''
          (fmupd ''device-1'' ''alice'' (fmupd ''demo-device'' ''gamer'' fmempty)),
      rooms = fmempty, persistPath = []\<rparr>"
  by (simp add: alice_registered_def eval_defs)


lemma alpha_run:
  "ServeHTTP example_sha env2 (snd (snd nova_registered)) (fst (snd nova_registered))
       ''/rooms'' MethodPost
       (empty_body\<lparr>as_CreateRoomRequest :=
          Some \<lparr>create_Name = ''alpha'', create_PreferredTransport = [], create_MTU = 0\<rparr>\<rparr>) =
     (fst alpha_created, fst (snd alpha_created), snd (snd alpha_created))"
  by (simp add: alpha_created_def)

lemma alpha_handler:
  "handleCreateRoom env2 (snd (snd nova_registered)) (fst (snd nova_registered)) MethodPost
       (Some \<lparr>create_Name = ''alpha'', create_PreferredTransport = [], create_MTU = 0\<rparr>) =
     (fst alpha_created, fst (snd alpha_created), snd (snd alpha_created))"
  by (simp add: alpha_created_def ServeHTTP_def registerRoutes_def empty_body_def)

lemma alpha_state:
  "fst (snd alpha_created) =
     (fst (snd nova_registered))
       \<lparr>rooms := fmupd ''room-1''
          \<lparr>ID = ''room-1'', Name = ''alpha'', PreferredTransport = TransportUDP, MTU = 1400,
           OverlaySubnet = ''10.0.1.0/24'', KeepaliveInterval = 15, Members = fmempty\<rparr> fmempty\<rparr>"
  by (simp add: alpha_created_def ServeHTTP_def registerRoutes_def empty_body_def
      handleCreateRoom_def Let_def nova_state decimal.simps split: prod.splits option.splits)

lemma alpha_status: "status (fst alpha_created) = StatusOK"
  by (simp add: alpha_created_def ServeHTTP_def registerRoutes_def empty_body_def
      handleCreateRoom_def Let_def nova_state persistLocked_def saveState_def env2_def
      writeJSON_def)

lemma alpha_reachable: "reachable example_sha (fst (snd alpha_created))"
proof -
  have "reachable example_sha stored_server"
    using stored_server_started by (rule reachable.started)
  then have "reachable example_sha (fst (snd nova_registered))"
    using nova_run by (rule reachable.served)
  then show ?thesis
    using alpha_run by (rule reachable.served)
qed


text \<open>The first of the two registrations that share the device identifier \<open>device-1\<close>.\<close>

lemma alice_run:
  "alice_registered =
     (writeJSON (RegisterOK \<lparr>reg_SessionToken = ''a0a1a2a3a4a5a6a7a8a9aaabacadaeaf'',
                            reg_DeviceToken = ''b0b1b2b3b4b5b6b7b8b9babbbcbdbebf''\<rparr>),
      fst (snd alice_registered), snd (snd alice_registered))"
  by (simp add: alice_registered_def eval_defs)

section \<open>Room creation\<close>

text \<open>
  C9. \<open>createRoom\<close> stores, under the identifier \<open>room-n\<close> with \<open>n\<close> one more than the
  number of rooms, a record with that identifier, the subnet \<open>10.0.n.0/24\<close>, the requested
  MTU or 1400 when the request leaves it at zero, the requested transport or UDP when
  the request leaves it empty, and the keepalive interval 15. The record is stored
  whether or not the save that follows succeeds; when it succeeds, the answer carries
  the same identifier, subnet, transport and MTU.
\<close>

theorem createRoom_assigns_id_subnet_defaults:
  "fmlookup (rooms (fst (snd (handleCreateRoom e fs s MethodPost (Some req)))))
       (''room-'' @ decimal (len (rooms s) + 1)) =
     Some \<lparr>ID = ''room-'' @ decimal (len (rooms s) + 1), Name = create_Name req,
         PreferredTransport = (if create_PreferredTransport req = [] then TransportUDP
                               else create_PreferredTransport req),
         MTU = (if create_MTU req = 0 then 1400 else create_MTU req),
         OverlaySubnet = ''10.0.'' @ decimal (len (rooms s) + 1) @ ''.0/24'',
         KeepaliveInterval = 15, Members = fmempty\<rparr> \<and>
   fst (handleCreateRoom (e\<lparr>fault := NoFault\<rparr>) fs s MethodPost (Some req)) =
     writeJSON (CreateRoomOK
       \<lparr>created_RoomID = ''room-'' @ decimal (len (rooms s) + 1),
        created_OverlaySubnet = ''10.0.'' @ decimal (len (rooms s) + 1) @ ''.0/24'',
        created_PreferredTransport = (if create_PreferredTransport req = [] then TransportUDP
                                      else create_PreferredTransport req),
        created_MTU = (if create_MTU req = 0 then 1400 else create_MTU req)\<rparr>)"
  by (simp add: handleCreateRoom_def Let_def persistLocked_NoFault
      split: prod.splits option.splits)

section \<open>Authorisation\<close>

text \<open>
  C1. The claim is that \<open>createRoom\<close> succeeds for an admin session only. The handler
  never looks at a session: \<open>CreateRoomRequest\<close> has no token field and the decoder drops
  the one a client sends. In every state, a request whose save does not fail is answered
  with 200 and its room is stored. In particular, on a server started without a path, a
  user registered after the seeded one (hence not the first) creates a room: both
  requests are answered with 200 and \<open>room-1\<close> is in the registry. The test
  \<open>TestNonAdminCannotCreateRoom\<close> runs these two requests and expects 403 for the second.
\<close>

theorem createRoom_by_non_admin_succeeds:
  "status (fst (handleCreateRoom (e\<lparr>fault := NoFault\<rparr>) fs s MethodPost (Some req))) = StatusOK \<and>
   fmlookup (rooms (fst (snd (handleCreateRoom (e\<lparr>fault := NoFault\<rparr>) fs s MethodPost (Some req)))))
     (''room-'' @ decimal (len (rooms s) + 1)) \<noteq> None \<and>
   (case ServeHTTP sha e1 fs (NewServer sha salt) ''/auth/register'' MethodPost
            (b1\<lparr>as_RegisterRequest :=
                  Some \<lparr>reg_Username = ''member'', reg_Password = ''pw'', reg_DeviceID = []\<rparr>\<rparr>) of
      (r1, s1, fs1) \<Rightarrow>
        (case ServeHTTP sha e2 fs1 s1 ''/rooms'' MethodPost
                (b2\<lparr>as_CreateRoomRequest :=
                      Some \<lparr>create_Name = ''restricted'', create_PreferredTransport = [],
                            create_MTU = 0\<rparr>\<rparr>) of
           (r2, s2, fs2) \<Rightarrow>
             status r1 = StatusOK \<and> fmlookup (sessions s1) (tok_session e1) = Some ''member'' \<and>
             fmlookup (rooms s1) ''room-1'' = None \<and>
             status r2 = StatusOK \<and> fmlookup (rooms s2) ''room-1'' \<noteq> None))"
proof -
  have "status (fst (handleCreateRoom (e\<lparr>fault := NoFault\<rparr>) fs s MethodPost (Some req))) = StatusOK"
    by (simp add: handleCreateRoom_def Let_def persistLocked_NoFault writeJSON_def)
  moreover
  have "fmlookup (rooms (fst (snd (handleCreateRoom (e\<lparr>fault := NoFault\<rparr>) fs s MethodPost (Some req)))))
     (''room-'' @ decimal (len (rooms s) + 1)) \<noteq> None"
    by (simp add: handleCreateRoom_def Let_def persistLocked_NoFault)
  moreover
  have "(case ServeHTTP sha e1 fs (NewServer sha salt) ''/auth/register'' MethodPost
            (b1\<lparr>as_RegisterRequest :=
                  Some \<lparr>reg_Username = ''member'', reg_Password = ''pw'', reg_DeviceID = []\<rparr>\<rparr>) of
      (r1, s1, fs1) \<Rightarrow>
        (case ServeHTTP sha e2 fs1 s1 ''/rooms'' MethodPost
                (b2\<lparr>as_CreateRoomRequest :=
                      Some \<lparr>create_Name = ''restricted'', create_PreferredTransport = [],
                            create_MTU = 0\<rparr>\<rparr>) of
           (r2, s2, fs2) \<Rightarrow>
             status r1 = StatusOK \<and> fmlookup (sessions s1) (tok_session e1) = Some ''member'' \<and>
             fmlookup (rooms s1) ''room-1'' = None \<and>
             status r2 = StatusOK \<and> fmlookup (rooms s2) ''room-1'' \<noteq> None))"
    by (simp add: ServeHTTP_def registerRoutes_def handleRegister_def handleCreateRoom_def
        NewServer_def seedDemoUser_def persistLocked_def Let_def TrimSpace_def trimFront.simps
        space_encodings_def ContainsSpace_def writeJSON_def len_fmupd decimal.simps)
  ultimately show ?thesis by simp
qed

text \<open>
  C2. The claim is that the first registered user is stored with the admin flag set and
  every later one with the flag cleared. \<open>userRecord\<close> has four fields and none is an
  admin flag: the record that a successful registration stores is made of the request
  and the salt alone, whatever the users already present.
\<close>

theorem register_stores_no_admin_flag:
  assumes "handleRegister sha e fs s MethodPost (Some req) = (r, s', fs')"
    and "status r = StatusOK"
  shows "fmlookup (users s') (reg_Username req) =
           Some \<lparr>Username = reg_Username req, Salt = rand_salt e,
                 Hash = hashPassword sha (reg_Password req) (rand_salt e),
                 Device = (if reg_DeviceID req = [] then ''device-'' @ take 6 (tok_deviceID e)
                           else reg_DeviceID req)\<rparr>"
  using handleRegister_ok(6) [OF assms] by simp

theorem register_stores_no_admin_flag_witness:
  "status (fst leader_registered) = StatusOK \<and>
   fmlookup (users (fst (snd leader_registered))) ''leader'' =
     Some \<lparr>Username = ''leader'', Salt = ''CAkKCwwNDg8='',
           Hash = ''uTp9t/IIue+kxgDk8Vis1iWpQ9WEFsTiB310A39Cs/w='', Device = ''device-7c9e66''\<rparr>"
proof -
  have run: "handleRegister example_sha env1 no_files stored_server MethodPost
       (Some \<lparr>reg_Username = ''leader'', reg_Password = ''secret'', reg_DeviceID = []\<rparr>) =
     (fst leader_registered, fst (snd leader_registered), snd (snd leader_registered))"
    by (simp add: leader_registered_def)
  have ok: "status (fst leader_registered) = StatusOK"
    by (simp add: leader_registered_def eval_defs)
  from register_stores_no_admin_flag [OF run ok] show ?thesis
    using ok by (simp add: env1_def hashPassword_def example_sha_def)
qed

text \<open>
  C3. The claim describes the operation \<open>updateAdminRole\<close>, which the client posts to
  \<open>/admin/role\<close>. \<open>registerRoutes\<close> registers no handler for that path: every such
  request is answered by the multiplexer with 404 and changes nothing, whoever sends it
  and whatever user it names.
\<close>

theorem admin_role_not_routed:
  "ServeHTTP sha e fs s ''/admin/role'' meth b =
     (\<lparr>status = StatusNotFound, body = NotFoundPage\<rparr>, s, fs)"
  by (simp add: ServeHTTP_def registerRoutes_def)

section \<open>Registration\<close>

text \<open>
  C7, as the code has it. \<open>register\<close> answers 400 and leaves the state and the files as
  they were (no user record, no token) when the username or the password is empty or
  consists of white space only, or when the username contains the space character
  U+0020.
\<close>

theorem register_rejects_blank_or_spaced:
  assumes "reg_Username req = [] \<or> reg_Password req = []
           \<or> TrimSpace (reg_Username req) = [] \<or> TrimSpace (reg_Password req) = []
           \<or> CHR 0x20 \<in> set (reg_Username req)"
  shows "\<exists>msg. handleRegister sha e fs s MethodPost (Some req) =
           (writeError StatusBadRequest msg, s, fs)"
proof -
  from assms have "TrimSpace (reg_Username req) = [] \<or> TrimSpace (reg_Password req) = []
      \<or> ContainsSpace (reg_Username req)"
    by (auto simp: TrimSpace_Nil ContainsSpace_def)
  then show ?thesis by (rule handleRegister_rejected)
qed

theorem register_rejects_blank_or_spaced_witness:
  "CHR 0x20 \<in> set ''bad name'' \<and>
   handleRegister example_sha env1 no_files demo_server MethodPost
      (Some \<lparr>reg_Username = ''bad name'', reg_Password = ''pw'', reg_DeviceID = ''device-1''\<rparr>) =
     (writeError StatusBadRequest ''username may not contain spaces'', demo_server, no_files)"
proof -
  have h: "CHR 0x20 \<in> set ''bad name''" by simp
  have "\<exists>msg. handleRegister example_sha env1 no_files demo_server MethodPost
      (Some \<lparr>reg_Username = ''bad name'', reg_Password = ''pw'', reg_DeviceID = ''device-1''\<rparr>) =
     (writeError StatusBadRequest msg, demo_server, no_files)"
    by (rule register_rejects_blank_or_spaced) (simp add: h)
  then obtain msg where run: "handleRegister example_sha env1 no_files demo_server MethodPost
      (Some \<lparr>reg_Username = ''bad name'', reg_Password = ''pw'', reg_DeviceID = ''device-1''\<rparr>) =
     (writeError StatusBadRequest msg, demo_server, no_files)" ..
  have "fst (handleRegister example_sha env1 no_files demo_server MethodPost
      (Some \<lparr>reg_Username = ''bad name'', reg_Password = ''pw'', reg_DeviceID = ''device-1''\<rparr>)) =
     writeError StatusBadRequest ''username may not contain spaces''"
    by (simp add: handleRegister_def TrimSpace_def trimFront.simps space_encodings_def
        ContainsSpace_def Let_def)
  with run have "msg = ''username may not contain spaces''"
    by (simp add: writeError_def)
  with run h show ?thesis by simp
qed

text \<open>
  C7 as stated fails for white space other than U+0020 inside the username: the
  registration of the username \<open>a<TAB>b\<close> is answered with 200, the record is stored and
  the session token resolves to it.
\<close>

theorem tab_in_username_accepted:
  "status (fst tab_name_registered) = StatusOK \<and>
   fmlookup (users demo_server) [CHR ''a'', CHR 0x09, CHR ''b''] = None \<and>
   fmlookup (users (fst (snd tab_name_registered))) [CHR ''a'', CHR 0x09, CHR ''b''] =
     Some \<lparr>Username = [CHR ''a'', CHR 0x09, CHR ''b''], Salt = ''CAkKCwwNDg8='',
           Hash = ''T4Zk1cCqeXty7gzHLJig6hxNBzLO7uOdrzxV8WH6qD4='', Device = ''device-1''\<rparr> \<and>
   fmlookup (sessions (fst (snd tab_name_registered))) ''a0a1a2a3a4a5a6a7a8a9aaabacadaeaf'' =
     Some [CHR ''a'', CHR 0x09, CHR ''b'']"
  by (simp add: tab_name_registered_def eval_defs)

text \<open>
  C8, as the code has it. After a registration that was answered with its two tokens, a
  second registration of the same username (with any password and any device
  identifier) leaves the state and the files as they were, and the session token and
  the device token of the first registration resolve to the user in that state. The
  input is validated before the username is looked up: the second request is answered
  with 400 when its password is empty or blank, and with 409 otherwise.
\<close>

theorem second_register_conflicts:
  assumes first: "handleRegister sha e1 fs s MethodPost (Some req1) = (r1, s1, fs1)"
    and ok: "r1 = writeJSON (RegisterOK toks)"
    and same: "reg_Username req2 = reg_Username req1"
  shows "handleRegister sha e2 fs1 s1 MethodPost (Some req2) =
           (if TrimSpace (reg_Password req2) = []
            then writeError StatusBadRequest ''username and password required''
            else writeError StatusConflict ''user already exists'', s1, fs1) \<and>
         fmlookup (sessions s1) (reg_SessionToken toks) = Some (reg_Username req1) \<and>
         fmlookup (deviceBags s1) (reg_DeviceToken toks) = Some (reg_Username req1)"
proof -
  from ok have st: "status r1 = StatusOK" by (simp add: writeJSON_def)
  note facts = handleRegister_ok [OF first st]
  from facts(5) ok
  have toks: "toks = \<lparr>reg_SessionToken = tok_session e1, reg_DeviceToken = tok_device e1\<rparr>"
    by (simp add: writeJSON_def)
  have answer: "handleRegister sha e2 fs1 s1 MethodPost (Some req2) =
           (if TrimSpace (reg_Password req2) = []
            then writeError StatusBadRequest ''username and password required''
            else writeError StatusConflict ''user already exists'', s1, fs1)"
  proof (cases "TrimSpace (reg_Password req2) = []")
    case True
    then have "handleRegister sha e2 fs1 s1 MethodPost (Some req2) =
           (writeError StatusBadRequest ''username and password required'', s1, fs1)"
      by (intro handleRegister_blank) simp
    with True show ?thesis by simp
  next
    case False
    have "fmlookup (users s1) (reg_Username req2) \<noteq> None"
      using facts(6) same by simp
    with facts(1,3) same False
    have "handleRegister sha e2 fs1 s1 MethodPost (Some req2) =
           (writeError StatusConflict ''user already exists'', s1, fs1)"
      by (intro handleRegister_conflict) simp_all
    with False show ?thesis by simp
  qed
  moreover have "fmlookup (sessions s1) (reg_SessionToken toks) = Some (reg_Username req1)"
    using facts(6) toks by simp
  moreover have "fmlookup (deviceBags s1) (reg_DeviceToken toks) = Some (reg_Username req1)"
    using facts(6) toks by simp
  ultimately show ?thesis by simp
qed

theorem second_register_conflicts_witness:
  "fst alice_registered =
     writeJSON (RegisterOK \<lparr>reg_SessionToken = ''a0a1a2a3a4a5a6a7a8a9aaabacadaeaf'',
                           reg_DeviceToken = ''b0b1b2b3b4b5b6b7b8b9babbbcbdbebf''\<rparr>) \<and>
   TrimSpace ''hunter2'' = ''hunter2'' \<and>
   handleRegister example_sha env2 (snd (snd alice_registered)) (fst (snd alice_registered))
       MethodPost
       (Some \<lparr>reg_Username = ''alice'', reg_Password = ''hunter2'', reg_DeviceID = ''device-2''\<rparr>) =
     (writeError StatusConflict ''user already exists'', fst (snd alice_registered),
      snd (snd alice_registered)) \<and>
   fmlookup (sessions (fst (snd alice_registered))) ''a0a1a2a3a4a5a6a7a8a9aaabacadaeaf'' =
     Some ''alice'' \<and>
   fmlookup (deviceBags (fst (snd alice_registered))) ''b0b1b2b3b4b5b6b7b8b9babbbcbdbebf'' =
     Some ''alice''"
proof -
  have first: "handleRegister example_sha env1 no_files demo_server MethodPost
       (Some \<lparr>reg_Username = ''alice'', reg_Password = ''pw'', reg_DeviceID = ''device-1''\<rparr>) =
     (fst alice_registered, fst (snd alice_registered), snd (snd alice_registered))"
    by (simp add: alice_registered_def)
  have ok: "fst alice_registered =
     writeJSON (RegisterOK \<lparr>reg_SessionToken = ''a0a1a2a3a4a5a6a7a8a9aaabacadaeaf'',
                           reg_DeviceToken = ''b0b1b2b3b4b5b6b7b8b9babbbcbdbebf''\<rparr>)"
    using alice_run by (metis fst_conv)
  have pw: "TrimSpace ''hunter2'' = ''hunter2''"
    by (simp add: TrimSpace_def trimFront.simps space_encodings_def)
  from second_register_conflicts [OF first ok, of
      "\<lparr>reg_Username = ''alice'', reg_Password = ''hunter2'', reg_DeviceID = ''device-2''\<rparr>" env2]
  show ?thesis using ok pw by simp
qed

text \<open>
  C8 as stated fails when the second request has no password: \<open>alice\<close> is registered,
  and a second registration of \<open>alice\<close> with an empty password is answered with 400, not
  409. (The state and the files are unchanged in that case too.)
\<close>

theorem second_register_blank_password_bad_request:
  "status (fst alice_registered) = StatusOK \<and>
   fmlookup (users (fst (snd alice_registered))) ''alice'' =
     Some \<lparr>Username = ''alice'', Salt = ''CAkKCwwNDg8='',
           Hash = ''T4Zk1cCqeXty7gzHLJig6hxNBzLO7uOdrzxV8WH6qD4='', Device = ''device-1''\<rparr> \<and>
   alice_again_without_password =
     (writeError StatusBadRequest ''username and password required'',
      fst (snd alice_registered), snd (snd alice_registered)) \<and>
   status (fst alice_again_without_password) = StatusBadRequest \<and>
   status (fst alice_again_without_password) \<noteq> StatusConflict"
proof -
  have run: "alice_again_without_password =
     (writeError StatusBadRequest ''username and password required'',
      fst (snd alice_registered), snd (snd alice_registered))"
    unfolding alice_again_without_password_def
    by (rule handleRegister_blank) (simp add: TrimSpace_Nil)
  have answer: "status (fst alice_again_without_password) = StatusBadRequest"
    unfolding run by (simp add: writeError_def)
  have first: "status (fst alice_registered) = StatusOK"
    using alice_run by (metis fst_conv response.select_convs(1) writeJSON_def)
  have user: "fmlookup (users (fst (snd alice_registered))) ''alice'' =
     Some \<lparr>Username = ''alice'', Salt = ''CAkKCwwNDg8='',
           Hash = ''T4Zk1cCqeXty7gzHLJig6hxNBzLO7uOdrzxV8WH6qD4='', Device = ''device-1''\<rparr>"
    by (simp add: alice_state)
  from answer have "status (fst alice_again_without_password) \<noteq> StatusConflict"
    by simp
  with run answer first user show ?thesis by blast
qed

section \<open>Joining a room\<close>

text \<open>
  C4, as the code has it. A \<open>joinRoom\<close> request that names a room which is not in the
  registry changes nothing; it is answered with 404 when its session token resolves, and
  with 401 when it does not: the session is looked up before the room.
\<close>

theorem join_missing_room:
  assumes "fmlookup (rooms s) (join_RoomID req) = None"
  shows "handleJoinRoom e fs s MethodPost (Some req) =
           (if fmlookup (sessions s) (join_SessionToken req) = None
            then writeError StatusUnauthorized ''session invalid''
            else writeError StatusNotFound ''room not found'', s, fs)"
  using assms by (simp add: handleJoinRoom_def split: option.splits)

theorem join_missing_room_witness:
  "fmlookup (rooms (fst (snd alice_registered))) ''room-7'' = None \<and>
   handleJoinRoom env2 (snd (snd alice_registered)) (fst (snd alice_registered)) MethodPost
      (Some \<lparr>join_RoomID = ''room-7'', join_DeviceID = ''device-1'',
             join_SessionToken = ''a0a1a2a3a4a5a6a7a8a9aaabacadaeaf''\<rparr>) =
     (writeError StatusNotFound ''room not found'', fst (snd alice_registered),
      snd (snd alice_registered))"
proof -
  have h: "fmlookup (rooms (fst (snd alice_registered))) ''room-7'' = None"
    by (simp add: alice_registered_def eval_defs)
  have v: "fmlookup (sessions (fst (snd alice_registered))) ''a0a1a2a3a4a5a6a7a8a9aaabacadaeaf'' \<noteq> None"
    by (simp add: alice_registered_def eval_defs)
  from join_missing_room [of "fst (snd alice_registered)"
      "\<lparr>join_RoomID = ''room-7'', join_DeviceID = ''device-1'',
        join_SessionToken = ''a0a1a2a3a4a5a6a7a8a9aaabacadaeaf''\<rparr>" env2 "snd (snd alice_registered)"]
  show ?thesis using h v by simp
qed

text \<open>
  C4 as stated fails when the session token does not resolve: no room \<open>room-7\<close> exists
  and the token is unknown, and the answer is 401, not 404.
\<close>

theorem join_missing_room_invalid_session_unauthorized:
  "fmlookup (rooms demo_server) ''room-7'' = None \<and>
   fmlookup (sessions demo_server) ''a0a1a2a3a4a5a6a7a8a9aaabacadaeaf'' = None \<and>
   stranger_joins_missing_room =
     (writeError StatusUnauthorized ''session invalid'', demo_server, no_files) \<and>
   status (fst stranger_joins_missing_room) = StatusUnauthorized \<and>
   status (fst stranger_joins_missing_room) \<noteq> StatusNotFound"
  by (simp add: stranger_joins_missing_room_def eval_defs)

section \<open>Persistence\<close>

lemma handleLogin_ok:
  assumes "handleLogin sha e fs s meth decoded = (r, s', fs')" "status r = StatusOK"
  shows "persistLocked s' fs (fault e) = (None, fs')" "persistPath s' = persistPath s"
    "users s' = users s" "rooms s' = rooms s"
  using assms
  by (auto simp: handleLogin_def Let_def writeError_def writeJSON_def persistFailed_def
      methodNotAllowed_def decodeFailed_def split: if_splits option.splits prod.splits)

lemma handleRegister_saved:
  assumes "handleRegister sha e fs s meth decoded = (r, s', fs')" "status r = StatusOK"
  shows "persistLocked s' fs (fault e) = (None, fs')" "persistPath s' = persistPath s"
  using assms
  by (auto simp: handleRegister_def Let_def writeError_def writeJSON_def persistFailed_def
      methodNotAllowed_def decodeFailed_def split: if_splits option.splits prod.splits)

lemma handleCreateRoom_saved:
  assumes "handleCreateRoom e fs s meth decoded = (r, s', fs')" "status r = StatusOK"
  shows "persistLocked s' fs (fault e) = (None, fs')" "persistPath s' = persistPath s"
  using assms
  by (auto simp: handleCreateRoom_def Let_def writeError_def writeJSON_def persistFailed_def
      methodNotAllowed_def decodeFailed_def split: if_splits option.splits prod.splits)

lemma handleJoinRoom_saved:
  assumes "handleJoinRoom e fs s meth decoded = (r, s', fs')" "status r = StatusOK"
  shows "persistLocked s' fs (fault e) = (None, fs')" "persistPath s' = persistPath s"
  using assms
  by (auto simp: handleJoinRoom_def Let_def writeError_def writeJSON_def persistFailed_def
      methodNotAllowed_def decodeFailed_def split: if_splits option.splits prod.splits)

lemma handleRefresh_persistent_part:
  assumes "handleRefresh e s meth decoded = (r, s')"
  shows "snapshot s' = snapshot s \<and> persistPath s' = persistPath s"
  using assms
  by (auto simp: handleRefresh_def Let_def snapshot_def split: if_splits option.splits)

text \<open>
  C6, as the code has it. With a persistence path configured, a request to \<open>register\<close>,
  \<open>login\<close>, \<open>createRoom\<close> or \<open>joinRoom\<close> that is answered with 200 has saved the state it
  leaves behind: the file at the path holds the encoding of that state. \<open>refresh\<close> never
  touches the files; it changes the session map only, which is no part of the saved
  document.
\<close>

theorem persisting_handlers_save_before_ack:
  assumes run: "ServeHTTP sha e fs s path meth b = (r, s', fs')"
  shows "(path \<in> {''/auth/register'', ''/auth/login'', ''/rooms'', ''/rooms/join''}
            \<and> status r = StatusOK \<and> persistPath s \<noteq> []
          \<longrightarrow> fs' (persistPath s) = Some (encodeState (snapshot s')))
       \<and> (path = ''/auth/refresh'' \<longrightarrow> fs' = fs \<and> snapshot s' = snapshot s)"
proof (rule conjI; rule impI)
  assume a: "path \<in> {''/auth/register'', ''/auth/login'', ''/rooms'', ''/rooms/join''}
            \<and> status r = StatusOK \<and> persistPath s \<noteq> []"
  then have ok: "status r = StatusOK" and p: "persistPath s \<noteq> []" by simp_all
  from a have "path = ''/auth/register'' \<or> path = ''/auth/login'' \<or> path = ''/rooms''
      \<or> path = ''/rooms/join''" by simp
  then have "persistLocked s' fs (fault e) = (None, fs') \<and> persistPath s' = persistPath s"
  proof (elim disjE)
    assume "path = ''/auth/register''"
    with run have "handleRegister sha e fs s meth (as_RegisterRequest b) = (r, s', fs')"
      by (simp add: ServeHTTP_def registerRoutes_def)
    from handleRegister_saved [OF this ok] show ?thesis by simp
  next
    assume "path = ''/auth/login''"
    with run have "handleLogin sha e fs s meth (as_LoginRequest b) = (r, s', fs')"
      by (simp add: ServeHTTP_def registerRoutes_def)
    from handleLogin_ok(1,2) [OF this ok] show ?thesis by simp
  next
    assume "path = ''/rooms''"
    with run have "handleCreateRoom e fs s meth (as_CreateRoomRequest b) = (r, s', fs')"
      by (simp add: ServeHTTP_def registerRoutes_def)
    from handleCreateRoom_saved [OF this ok] show ?thesis by simp
  next
    assume "path = ''/rooms/join''"
    with run have "handleJoinRoom e fs s meth (as_JoinRoomRequest b) = (r, s', fs')"
      by (simp add: ServeHTTP_def registerRoutes_def)
    from handleJoinRoom_saved [OF this ok] show ?thesis by simp
  qed
  with p show "fs' (persistPath s) = Some (encodeState (snapshot s'))"
    using persistLocked_saved [of s' fs "fault e" fs'] by simp
next
  assume "path = ''/auth/refresh''"
  with run obtain r0 s0 where h: "handleRefresh e s meth (as_RefreshTokenRequest b) = (r0, s0)"
    and eq: "(r0, s0, fs) = (r, s', fs')"
    by (cases "handleRefresh e s meth (as_RefreshTokenRequest b)")
       (simp add: ServeHTTP_def registerRoutes_def)
  from eq handleRefresh_persistent_part [OF h] show "fs' = fs \<and> snapshot s' = snapshot s"
    by simp
qed

theorem persisting_handlers_save_before_ack_witness:
  "status (fst nova_registered) = StatusOK \<and> persistPath stored_server = ''data/state.json'' \<and>
   snd (snd nova_registered) ''data/state.json'' =
     Some (encodeState (snapshot (fst (snd nova_registered)))) \<and>
   snd (snd first_refresh) = no_files \<and>
   snapshot (fst (snd first_refresh)) = snapshot stored_server"
proof -
  have p: "persistPath stored_server = ''data/state.json''"
    by (simp add: stored_server_def seedDemoUser_def Let_def)
  from persisting_handlers_save_before_ack [OF nova_run] nova_status p
  have a: "snd (snd nova_registered) ''data/state.json'' =
     Some (encodeState (snapshot (fst (snd nova_registered))))"
    by simp
  have "ServeHTTP example_sha env1 no_files stored_server ''/auth/refresh'' MethodPost
       (empty_body\<lparr>as_RefreshTokenRequest := Some \<lparr>refresh_DeviceToken = ''demo-device''\<rparr>\<rparr>) =
     (fst first_refresh, fst (snd first_refresh), snd (snd first_refresh))"
    by (simp add: first_refresh_def)
  from persisting_handlers_save_before_ack [OF this]
  have b: "snd (snd first_refresh) = no_files \<and>
     snapshot (fst (snd first_refresh)) = snapshot stored_server"
    by simp
  from a b nova_status p show ?thesis by simp
qed


text \<open>
  C6 as stated fails for \<open>refresh\<close>: on a server started on the path \<open>data/state.json\<close>
  with no file there, a refresh with the seeded device identifier is answered with 200
  and adds a session, and no file exists afterwards: nothing was saved.
\<close>

theorem refresh_acknowledged_without_save:
  "NewServerWithStorage example_sha ''AAECAwQFBgc='' no_files ''data/state.json'' = Inr stored_server \<and>
   persistPath stored_server = ''data/state.json'' \<and>
   fmlookup (sessions stored_server) ''a0a1a2a3a4a5a6a7a8a9aaabacadaeaf'' = None \<and>
   fst first_refresh =
     writeJSON (RefreshOK \<lparr>refresh_SessionToken = ''a0a1a2a3a4a5a6a7a8a9aaabacadaeaf''\<rparr>) \<and>
   status (fst first_refresh) = StatusOK \<and>
   fmlookup (sessions (fst (snd first_refresh))) ''a0a1a2a3a4a5a6a7a8a9aaabacadaeaf'' = Some ''gamer'' \<and>
   snd (snd first_refresh) ''data/state.json'' = None"
  by (simp add: first_refresh_def eval_defs)

section \<open>Device identifiers and device tokens\<close>





section \<open>Restart\<close>

lemma len_0_iff: "len m = 0 \<longleftrightarrow> m = fmempty"
proof
  assume "len m = 0"
  then have "fmdom m = {||}" by (simp add: len_def fcard_0_eq)
  then have "fmlookup m k = None" for k
    by (metis fmdom_notD fempty_iff)
  then show "m = fmempty" by (intro fmap_ext) simp
qed simp

lemma handleLogin_accepts:
  assumes "fmlookup (users s) u = Some rec" "Hash rec = hashPassword sha pw (Salt rec)"
    "fault e = NoFault"
  shows "handleLogin sha e fs s MethodPost (Some \<lparr>login_Username = u, login_Password = pw\<rparr>) =
           (writeJSON (LoginOK \<lparr>login_SessionToken = tok_session e,
                               login_DeviceToken = tok_device e\<rparr>),
            s\<lparr>sessions := fmupd (tok_session e) u (sessions s),
              deviceBags := fmupd (tok_device e) u (deviceBags s)\<rparr>,
            snd (persistLocked
                   (s\<lparr>sessions := fmupd (tok_session e) u (sessions s),
                      deviceBags := fmupd (tok_device e) u (deviceBags s)\<rparr>) fs NoFault))"
  using assms by (simp add: handleLogin_def Let_def persistLocked_NoFault)

lemma handleJoinRoom_accepts:
  assumes "fmlookup (sessions s) tok = Some u" "fmlookup (rooms s) rid = Some room"
    "fault e = NoFault"
  shows "\<exists>s' fs'. handleJoinRoom e fs s MethodPost
            (Some \<lparr>join_RoomID = rid, join_DeviceID = dev, join_SessionToken = tok\<rparr>) =
           (writeJSON (JoinRoomOK
              \<lparr>VirtualIP = ''10.0.'' @ decimal (len (Members room) + 1) @ ''.''
                             @ decimal (len (Members room) + 2),
               SessionKey = tok_sessionKey e,
               joined_Transport = PreferredTransport room,
               KeepaliveIntervalSec = KeepaliveInterval room,
               OverlaySubnetReference = OverlaySubnet room\<rparr>), s', fs')"
  using assms by (simp add: handleJoinRoom_def Let_def persistLocked_NoFault)

lemma restart_adopts_snapshot:
  assumes "users s \<noteq> fmempty" "p \<noteq> []" "fs p = Some (encodeState (snapshot s))"
  shows "NewServerWithStorage sha salt fs p =
           Inr \<lparr>users = users s, sessions = fmempty, deviceBags = deviceBags s,
                rooms = rooms s, persistPath = p\<rparr>"
  using assms
  by (simp add: NewServerWithStorage_def loadFromDisk_def loadState_def encodeState_def
      snapshot_def len_0_iff Let_def)

lemma NewServerWithStorage_users:
  assumes "NewServerWithStorage sha salt fs path = Inr s"
  shows "users s \<noteq> fmempty"
  using assms
  by (auto simp: NewServerWithStorage_def loadFromDisk_def seedDemoUser_def Let_def len_0_iff
      split: if_splits sum.splits)

lemma ServeHTTP_users:
  assumes "ServeHTTP sha e fs s path meth b = (r, s', fs')" "users s \<noteq> fmempty"
  shows "users s' \<noteq> fmempty"
  using assms
  by (auto simp: ServeHTTP_def handleRegister_def handleLogin_def handleRefresh_def
      handleCreateRoom_def handleJoinRoom_def Let_def
      split: option.splits handler.splits if_splits prod.splits)

lemma reachable_users: "reachable sha s \<Longrightarrow> users s \<noteq> fmempty"
proof (induction rule: reachable.induct)
  case (started salt fs path s)
  then show ?case by (rule NewServerWithStorage_users)
next
  case (served s e fs path meth b r s' fs')
  from served.hyps(2) served.IH show ?case by (rule ServeHTTP_users)
qed

text \<open>
  C5. Let a running server with a persistence path save its state. A server started on
  that path then holds the same users, device bindings and rooms; it accepts the login
  of every user with a password whose salted hash is the stored one (answering with the
  two new tokens, when its own save succeeds), and with the session token of that login
  every room of the saved state can be joined by its identifier, the answer carrying
  the room's transport, keepalive interval and overlay subnet as they were saved.
\<close>

theorem persistence_round_trip:
  assumes run: "reachable sha s" and path: "persistPath s \<noteq> []"
    and saved: "persistLocked s fs flt = (None, fs')"
  shows "\<exists>s'. NewServerWithStorage sha salt fs' (persistPath s) = Inr s' \<and>
           users s' = users s \<and> deviceBags s' = deviceBags s \<and> rooms s' = rooms s \<and>
           (\<forall>u rec pw e1. fmlookup (users s) u = Some rec
                \<and> Hash rec = hashPassword sha pw (Salt rec) \<and> fault e1 = NoFault \<longrightarrow>
              (\<exists>s1 fs1.
                 handleLogin sha e1 fs' s' MethodPost
                     (Some \<lparr>login_Username = u, login_Password = pw\<rparr>) =
                   (writeJSON (LoginOK \<lparr>login_SessionToken = tok_session e1,
                                       login_DeviceToken = tok_device e1\<rparr>), s1, fs1) \<and>
                 (\<forall>rid room dev e2. fmlookup (rooms s) rid = Some room \<and> fault e2 = NoFault \<longrightarrow>
                    (\<exists>vip s2 fs2.
                       handleJoinRoom e2 fs1 s1 MethodPost
                           (Some \<lparr>join_RoomID = rid, join_DeviceID = dev,
                                  join_SessionToken = tok_session e1\<rparr>) =
                         (writeJSON (JoinRoomOK
                            \<lparr>VirtualIP = vip, SessionKey = tok_sessionKey e2,
                             joined_Transport = PreferredTransport room,
                             KeepaliveIntervalSec = KeepaliveInterval room,
                             OverlaySubnetReference = OverlaySubnet room\<rparr>), s2, fs2)))))"
proof -
  define s' where "s' = \<lparr>users = users s, sessions = fmempty, deviceBags = deviceBags s,
                rooms = rooms s, persistPath = persistPath s\<rparr>"
  have disk: "fs' (persistPath s) = Some (encodeState (snapshot s))"
    using saved path by (rule persistLocked_saved)
  have start: "NewServerWithStorage sha salt fs' (persistPath s) = Inr s'"
    unfolding s'_def using reachable_users [OF run] path disk by (rule restart_adopts_snapshot)
  have login_join: "\<exists>s1 fs1.
         handleLogin sha e1 fs' s' MethodPost (Some \<lparr>login_Username = u, login_Password = pw\<rparr>) =
           (writeJSON (LoginOK \<lparr>login_SessionToken = tok_session e1,
                               login_DeviceToken = tok_device e1\<rparr>), s1, fs1) \<and>
         (\<forall>rid room dev e2. fmlookup (rooms s) rid = Some room \<and> fault e2 = NoFault \<longrightarrow>
            (\<exists>vip s2 fs2.
               handleJoinRoom e2 fs1 s1 MethodPost
                   (Some \<lparr>join_RoomID = rid, join_DeviceID = dev,
                          join_SessionToken = tok_session e1\<rparr>) =
                 (writeJSON (JoinRoomOK
                    \<lparr>VirtualIP = vip, SessionKey = tok_sessionKey e2,
                     joined_Transport = PreferredTransport room,
                     KeepaliveIntervalSec = KeepaliveInterval room,
                     OverlaySubnetReference = OverlaySubnet room\<rparr>), s2, fs2)))"
    if u: "fmlookup (users s) u = Some rec" and h: "Hash rec = hashPassword sha pw (Salt rec)"
      and f: "fault e1 = NoFault" for u rec pw e1
  proof -
    define s1 where "s1 = s'\<lparr>sessions := fmupd (tok_session e1) u (sessions s'),
              deviceBags := fmupd (tok_device e1) u (deviceBags s')\<rparr>"
    define fs1 where "fs1 = snd (persistLocked s1 fs' NoFault)"
    from u have u': "fmlookup (users s') u = Some rec" by (simp add: s'_def)
    have login: "handleLogin sha e1 fs' s' MethodPost
        (Some \<lparr>login_Username = u, login_Password = pw\<rparr>) =
       (writeJSON (LoginOK \<lparr>login_SessionToken = tok_session e1,
                           login_DeviceToken = tok_device e1\<rparr>), s1, fs1)"
      unfolding s1_def fs1_def using u' h f by (rule handleLogin_accepts)
    have "\<exists>vip s2 fs2.
               handleJoinRoom e2 fs1 s1 MethodPost
                   (Some \<lparr>join_RoomID = rid, join_DeviceID = dev,
                          join_SessionToken = tok_session e1\<rparr>) =
                 (writeJSON (JoinRoomOK
                    \<lparr>VirtualIP = vip, SessionKey = tok_sessionKey e2,
                     joined_Transport = PreferredTransport room,
                     KeepaliveIntervalSec = KeepaliveInterval room,
                     OverlaySubnetReference = OverlaySubnet room\<rparr>), s2, fs2)"
      if r: "fmlookup (rooms s) rid = Some room" and f2: "fault e2 = NoFault" for rid room dev e2
    proof -
      have "fmlookup (sessions s1) (tok_session e1) = Some u" by (simp add: s1_def)
      moreover from r have "fmlookup (rooms s1) rid = Some room" by (simp add: s1_def s'_def)
      ultimately show ?thesis using f2 handleJoinRoom_accepts by blast
    qed
    with login show ?thesis by blast
  qed
  have "users s' = users s \<and> deviceBags s' = deviceBags s \<and> rooms s' = rooms s"
    by (simp add: s'_def)
  with start login_join show ?thesis by blast
qed

theorem persistence_round_trip_witness:
  "reachable example_sha (fst (snd alpha_created)) \<and>
   persistPath (fst (snd alpha_created)) = ''data/state.json'' \<and>
   persistLocked (fst (snd alpha_created)) (snd (snd nova_registered)) NoFault =
     (None, snd (snd alpha_created)) \<and>
   (\<exists>s'. NewServerWithStorage example_sha ''GBkaGxwdHh8='' (snd (snd alpha_created))
            ''data/state.json'' = Inr s' \<and>
      users s' = users (fst (snd alpha_created)) \<and>
      (\<exists>s1 fs1.
         handleLogin example_sha env3 (snd (snd alpha_created)) s' MethodPost
             (Some \<lparr>login_Username = ''nova'', login_Password = ''warp123''\<rparr>) =
           (writeJSON (LoginOK \<lparr>login_SessionToken = ''101112131415161718191a1b1c1d1e1f'',
                               login_DeviceToken = ''202122232425262728292a2b2c2d2e2f''\<rparr>),
            s1, fs1) \<and>
         (\<exists>vip s2 fs2.
            handleJoinRoom env1 fs1 s1 MethodPost
                (Some \<lparr>join_RoomID = ''room-1'', join_DeviceID = ''rig-device'',
                       join_SessionToken = ''101112131415161718191a1b1c1d1e1f''\<rparr>) =
              (writeJSON (JoinRoomOK
                 \<lparr>VirtualIP = vip, SessionKey = ''c0c1c2c3c4c5c6c7c8c9cacbcccdcecf'',
                  joined_Transport = TransportUDP, KeepaliveIntervalSec = 15,
                  OverlaySubnetReference = ''10.0.1.0/24''\<rparr>), s2, fs2))))"
proof -
  let ?s = "fst (snd alpha_created)"
  have path: "persistPath ?s = ''data/state.json''"
    by (simp add: alpha_state nova_state)
  then have path': "persistPath ?s \<noteq> []" by simp
  have flt: "fault env2 = NoFault" by (simp add: env2_def)
  have saved: "persistLocked ?s (snd (snd nova_registered)) NoFault = (None, snd (snd alpha_created))"
    using handleCreateRoom_saved(1) [OF alpha_handler alpha_status] flt by simp
  have user: "fmlookup (users ?s) ''nova'' =
      Some \<lparr>Username = ''nova'', Salt = ''CAkKCwwNDg8='',
            Hash = ''nUuloEt5FCbLoIt2UoAEf/6jCe5g57iPGz4EQFQgqD4='', Device = ''rig-device''\<rparr>"
    by (simp add: alpha_state nova_state)
  have room: "fmlookup (rooms ?s) ''room-1'' =
      Some \<lparr>ID = ''room-1'', Name = ''alpha'', PreferredTransport = TransportUDP, MTU = 1400,
           OverlaySubnet = ''10.0.1.0/24'', KeepaliveInterval = 15, Members = fmempty\<rparr>"
    by (simp add: alpha_state)
  have hash: "''nUuloEt5FCbLoIt2UoAEf/6jCe5g57iPGz4EQFQgqD4='' =
      hashPassword example_sha ''warp123'' ''CAkKCwwNDg8=''"
    by (simp add: hashPassword_def example_sha_def)
  have e3: "fault env3 = NoFault" "tok_session env3 = ''101112131415161718191a1b1c1d1e1f''"
    "tok_device env3 = ''202122232425262728292a2b2c2d2e2f''"
    by (simp_all add: env3_def)
  have e1: "fault env1 = NoFault" "tok_sessionKey env1 = ''c0c1c2c3c4c5c6c7c8c9cacbcccdcecf''"
    by (simp_all add: env1_def)
  from persistence_round_trip [OF alpha_reachable path' saved, of "''GBkaGxwdHh8=''"]
  obtain s' where start: "NewServerWithStorage example_sha ''GBkaGxwdHh8='' (snd (snd alpha_created))
            (persistPath ?s) = Inr s'"
    and same: "users s' = users ?s"
    and all: "\<And>u rec pw e1. fmlookup (users ?s) u = Some rec
                \<and> Hash rec = hashPassword example_sha pw (Salt rec) \<and> fault e1 = NoFault \<Longrightarrow>
              (\<exists>s1 fs1.
                 handleLogin example_sha e1 (snd (snd alpha_created)) s' MethodPost
                     (Some \<lparr>login_Username = u, login_Password = pw\<rparr>) =
                   (writeJSON (LoginOK \<lparr>login_SessionToken = tok_session e1,
                                       login_DeviceToken = tok_device e1\<rparr>), s1, fs1) \<and>
                 (\<forall>rid room dev e2. fmlookup (rooms ?s) rid = Some room \<and> fault e2 = NoFault \<longrightarrow>
                    (\<exists>vip s2 fs2.
                       handleJoinRoom e2 fs1 s1 MethodPost
                           (Some \<lparr>join_RoomID = rid, join_DeviceID = dev,
                                  join_SessionToken = tok_session e1\<rparr>) =
                         (writeJSON (JoinRoomOK
                            \<lparr>VirtualIP = vip, SessionKey = tok_sessionKey e2,
                             joined_Transport = PreferredTransport room,
                             KeepaliveIntervalSec = KeepaliveInterval room,
                             OverlaySubnetReference = OverlaySubnet room\<rparr>), s2, fs2))))"
    by blast
  from all [of "''nova''" _ "''warp123''" env3] user hash e3(1)
  obtain s1 fs1 where login: "handleLogin example_sha env3 (snd (snd alpha_created)) s' MethodPost
                     (Some \<lparr>login_Username = ''nova'', login_Password = ''warp123''\<rparr>) =
                   (writeJSON (LoginOK \<lparr>login_SessionToken = tok_session env3,
                                       login_DeviceToken = tok_device env3\<rparr>), s1, fs1)"
    and joins: "\<And>rid room dev e2. fmlookup (rooms ?s) rid = Some room \<and> fault e2 = NoFault \<Longrightarrow>
                    (\<exists>vip s2 fs2.
                       handleJoinRoom e2 fs1 s1 MethodPost
                           (Some \<lparr>join_RoomID = rid, join_DeviceID = dev,
                                  join_SessionToken = tok_session env3\<rparr>) =
                         (writeJSON (JoinRoomOK
                            \<lparr>VirtualIP = vip, SessionKey = tok_sessionKey e2,
                             joined_Transport = PreferredTransport room,
                             KeepaliveIntervalSec = KeepaliveInterval room,
                             OverlaySubnetReference = OverlaySubnet room\<rparr>), s2, fs2))"
    by (metis userRecord.select_convs(2,3))
  from joins [of "''room-1''" _ env1 "''rig-device''"] room e1
  obtain vip s2 fs2 where join: "handleJoinRoom env1 fs1 s1 MethodPost
                (Some \<lparr>join_RoomID = ''room-1'', join_DeviceID = ''rig-device'',
                       join_SessionToken = ''101112131415161718191a1b1c1d1e1f''\<rparr>) =
              (writeJSON (JoinRoomOK
                 \<lparr>VirtualIP = vip, SessionKey = ''c0c1c2c3c4c5c6c7c8c9cacbcccdcecf'',
                  joined_Transport = TransportUDP, KeepaliveIntervalSec = 15,
                  OverlaySubnetReference = ''10.0.1.0/24''\<rparr>), s2, fs2)"
    using e3(2) by fastforce
  from start path have "NewServerWithStorage example_sha ''GBkaGxwdHh8='' (snd (snd alpha_created))
            ''data/state.json'' = Inr s'" by simp
  with login join same alpha_reachable path saved e3 show ?thesis by auto
qed

end
